theory Spec2Isabelle
  imports Main
begin

chapter \<open>The model\<close>

section \<open>RetryPolicy: \<open>retryRequest\<close> (main.js)\<close>

text \<open>
  The callback of a request receives \<open>(error, response, body)\<close>. Of the error only its
  \<open>code\<close> is read (an error without one has the empty code here), of the response only its
  \<open>statusCode\<close>; \<open>None\<close> stands for a null or undefined component.
\<close>

record outcome =
  error :: "string option"
  response :: "nat option"
  body :: "string option"

definition isConnectionRefused :: "outcome \<Rightarrow> bool" where
  "isConnectionRefused out =
     (case error out of
        None \<Rightarrow> False
      | Some code \<Rightarrow> code = ''ECONNREFUSED'' \<or> code = ''ECONNRESET'')"

definition isRateLimited :: "outcome \<Rightarrow> bool" where
  "isRateLimited out =
     (case response out of
        None \<Rightarrow> False
      | Some statusCode \<Rightarrow> statusCode = 429 \<or> statusCode = 503)"

definition transient :: "outcome \<Rightarrow> bool" where
  "transient out = (isConnectionRefused out \<or> isRateLimited out)"

text \<open>The delay computed after \<open>attempt++\<close>: \<open>baseDelay * Math.pow(2, attempt - 1)\<close>.\<close>

definition backoff :: "int \<Rightarrow> nat \<Rightarrow> int" where
  "backoff baseDelay attempt = baseDelay * 2 ^ (attempt - 1)"

record retry_result =
  resolved :: outcome
  invocations :: nat
  waits :: "int list"

text \<open>
  \<open>tryRequest\<close> is the inner closure. \<open>requestFn\<close> is stateful in general (a server answers
  differently each time), so it is given as the outcome of its \<open>n\<close>-th invocation, counted
  from 0. \<open>attempt\<close> is the closure's counter; \<open>calls\<close> and \<open>delays\<close> record how often
  \<open>requestFn\<close> has been invoked and which \<open>setTimeout\<close> delays have been waited.
\<close>

function tryRequest ::
  "(nat \<Rightarrow> outcome) \<Rightarrow> nat \<Rightarrow> int \<Rightarrow> nat \<Rightarrow> nat \<Rightarrow> int list \<Rightarrow> retry_result" where
  "tryRequest requestFn maxRetries baseDelay attempt calls delays =
     (let out = requestFn calls in
      if (isConnectionRefused out \<or> isRateLimited out) \<and> attempt < maxRetries
      then tryRequest requestFn maxRetries baseDelay (attempt + 1) (calls + 1)
             (delays @ [backoff baseDelay (attempt + 1)])
      else \<lparr>resolved = out, invocations = calls + 1, waits = delays\<rparr>)"
  by pat_completeness auto
termination
  by (relation "measure (\<lambda>(requestFn, maxRetries, baseDelay, attempt, calls, delays).
        maxRetries - attempt)") auto

declare tryRequest.simps [simp del]

definition retryRequest :: "(nat \<Rightarrow> outcome) \<Rightarrow> nat \<Rightarrow> int \<Rightarrow> retry_result" where
  "retryRequest requestFn maxRetries baseDelay = tryRequest requestFn maxRetries baseDelay 0 0 []"

section \<open>Throttle (main.js)\<close>

text \<open>
  Times are \<open>Date.now()\<close> values in milliseconds. The timers of \<open>setTimeout\<close> belong to
  the runtime: \<open>process\<close> returns, next to the updated object, the delay of the timer it
  sets, if it sets one.
\<close>

record 'a Throttle =
  minIntervalMs :: int
  queue :: "'a list"
  lastTime :: int
  active :: bool

definition new_Throttle :: "int \<Rightarrow> 'a Throttle" where
  "new_Throttle m = \<lparr>minIntervalMs = m, queue = [], lastTime = 0, active = False\<rparr>"

definition process :: "int \<Rightarrow> 'a Throttle \<Rightarrow> 'a Throttle \<times> int option" where
  "process now th =
     (if active th \<or> queue th = [] then (th, None)
      else (th\<lparr>active := True\<rparr>, Some (max 0 (minIntervalMs th - (now - lastTime th)))))"

definition enqueue :: "'a \<Rightarrow> int \<Rightarrow> 'a Throttle \<Rightarrow> 'a Throttle \<times> int option" where
  "enqueue fn now th = process now (th\<lparr>queue := queue th @ [fn]\<rparr>)"

text \<open>
  The timer's callback, in two halves around the call \<open>fn()\<close> of the task it takes off
  the queue. On an empty queue \<open>shift()\<close> gives undefined and the call throws: \<open>None\<close>.
\<close>

definition timer_shift :: "int \<Rightarrow> 'a Throttle \<Rightarrow> ('a \<times> 'a Throttle) option" where
  "timer_shift now th =
     (case queue th of
        [] \<Rightarrow> None
      | fn # rest \<Rightarrow> Some (fn, th\<lparr>lastTime := now, queue := rest\<rparr>))"

definition timer_done :: "int \<Rightarrow> 'a Throttle \<Rightarrow> 'a Throttle \<times> int option" where
  "timer_done now th = process now (th\<lparr>active := False\<rparr>)"

subsection \<open>The lane: a Throttle and its timers under arbitrary timing\<close>

text \<open>
  A lane is a Throttle together with the due times of its pending timers, the time of
  the last event, and the log of the tasks started so far with their start times (the value
  \<open>lastTime\<close> takes when the timer fires). Events come from outside: a caller enqueues a
  task at some time, or a pending timer fires, not before it is due. While the task runs
  (from \<open>now\<close> to \<open>fin\<close>) it may itself enqueue further tasks.
\<close>

record 'a lane =
  throttle :: "'a Throttle"
  timers :: "int list"
  clock :: int
  started :: "(int \<times> 'a) list"

datatype 'a event = Enqueue int 'a | Fire nat int "'a list" int

definition new_lane :: "int \<Rightarrow> 'a lane" where
  "new_lane m = \<lparr>throttle = new_Throttle m, timers = [], clock = 0, started = []\<rparr>"

definition schedule :: "int \<Rightarrow> int option \<Rightarrow> int list \<Rightarrow> int list" where
  "schedule now wait ts = (case wait of None \<Rightarrow> ts | Some w \<Rightarrow> ts @ [now + w])"

definition lane_enqueue :: "int \<Rightarrow> 'a lane \<Rightarrow> 'a \<Rightarrow> 'a lane" where
  "lane_enqueue now s fn =
     (case enqueue fn now (throttle s) of
        (th, wait) \<Rightarrow> s\<lparr>throttle := th, timers := schedule now wait (timers s)\<rparr>)"

definition lane_fire :: "nat \<Rightarrow> int \<Rightarrow> 'a list \<Rightarrow> int \<Rightarrow> 'a lane \<Rightarrow> 'a lane option" where
  "lane_fire k now nested fin s =
     (if k < length (timers s) \<and> timers s ! k \<le> now \<and> clock s \<le> now \<and> now \<le> fin then
        (case timer_shift now (throttle s) of
           None \<Rightarrow> None
         | Some (fn, th) \<Rightarrow>
             let s1 = s\<lparr>throttle := th, timers := take k (timers s) @ drop (Suc k) (timers s),
                        started := started s @ [(now, fn)]\<rparr>;
                 s2 = foldl (lane_enqueue now) s1 nested
             in (case timer_done fin (throttle s2) of
                   (th', wait) \<Rightarrow>
                     Some (s2\<lparr>throttle := th', timers := schedule fin wait (timers s2),
                              clock := fin\<rparr>)))
      else None)"

fun step :: "'a event \<Rightarrow> 'a lane \<Rightarrow> 'a lane option" where
  "step (Enqueue now fn) s =
     (if clock s \<le> now then Some ((lane_enqueue now s fn)\<lparr>clock := now\<rparr>) else None)"
| "step (Fire k now nested fin) s = lane_fire k now nested fin s"

fun exec :: "'a event list \<Rightarrow> 'a lane \<Rightarrow> 'a lane option" where
  "exec [] s = Some s"
| "exec (e # es) s = (case step e s of None \<Rightarrow> None | Some s' \<Rightarrow> exec es s')"

fun enqueued :: "'a event list \<Rightarrow> 'a list" where
  "enqueued [] = []"
| "enqueued (Enqueue now fn # es) = fn # enqueued es"
| "enqueued (Fire k now nested fin # es) = nested @ enqueued es"

text \<open>
  What holds of a lane between two events: the flag \<open>active\<close> is set exactly while a timer
  is pending, there is at most one, it was set for a non-empty queue, and it is due no
  sooner than one interval after the last start.
\<close>

definition lane_inv :: "'a lane \<Rightarrow> bool" where
  "lane_inv s =
     ((active (throttle s) = (timers s \<noteq> [])) \<and> length (timers s) \<le> 1 \<and>
      (timers s = [] \<or> queue (throttle s) \<noteq> []) \<and>
      (started s = [] \<or>
         (lastTime (throttle s) = fst (last (started s)) \<and>
          list_all (\<lambda>due. lastTime (throttle s) + minIntervalMs (throttle s) \<le> due) (timers s))) \<and>
      successively (\<lambda>a b. fst a + minIntervalMs (throttle s) \<le> fst b) (started s))"

section \<open>Crawler: the paginated project listing (main.js, \<open>Redmine.getProjects\<close>)\<close>

definition NB_PROJECTS_PER_PAGE :: nat where
  "NB_PROJECTS_PER_PAGE = 25"

text \<open>
  \<open>JSON.parse\<close> belongs to the runtime and is a parameter of the model. A parser either
  throws, or the field read from the parsed value is undefined, or it is there.
\<close>

datatype 'a parsed = Throws | Missing | Parsed 'a

text \<open>\<open>if (body)\<close>: an undefined body and the empty string are falsy.\<close>

definition truthy :: "string option \<Rightarrow> bool" where
  "truthy b = (case b of None \<Rightarrow> False | Some s \<Rightarrow> s \<noteq> [])"

text \<open>
  What the task of \<open>getProjectListPage\<close> does with the resolved outcome: \<open>Some projects\<close>
  when it invokes \<open>callback(projects)\<close>, \<open>None\<close> when it only logs. A body that does not
  parse, or has no \<open>projects\<close>, gives \<open>callback([])\<close>.
\<close>

definition getProjectListPage_resolved ::
  "(string \<Rightarrow> 'p list parsed) \<Rightarrow> outcome \<Rightarrow> 'p list option" where
  "getProjectListPage_resolved parse out =
     (if error out \<noteq> None then None
      else if response out = Some 401 then None
      else if response out \<noteq> None \<and> response out \<noteq> Some 200 then None
      else if truthy (body out)
        then Some (case parse (the (body out)) of Parsed projects \<Rightarrow> projects | _ \<Rightarrow> [])
      else None)"

record 'p listing_result =
  delivered :: "'p list option"
  requests :: "nat list"

text \<open>
  \<open>getProjects\<close> with its closure \<open>next\<close>. The first argument answers a page request at an
  offset as \<open>getProjectListPage_resolved\<close> does: \<open>None\<close> when \<open>next\<close> is never called.
  \<open>requests\<close> records the offsets asked for, \<open>delivered\<close> the argument of the final
  \<open>callback(projects)\<close>, if it is ever invoked. A server that keeps returning full pages
  keeps the loop running: the function is partial.
\<close>

partial_function (option) getProjects_next ::
  "(nat \<Rightarrow> 'p list option) \<Rightarrow> nat \<Rightarrow> 'p list \<Rightarrow> nat list \<Rightarrow> 'p listing_result option" where
  "getProjects_next getProjectListPage page projects offsets =
     (case getProjectListPage (page * NB_PROJECTS_PER_PAGE) of
        None \<Rightarrow>
          Some \<lparr>delivered = None, requests = offsets @ [page * NB_PROJECTS_PER_PAGE]\<rparr>
      | Some projectList \<Rightarrow>
          if length projectList = NB_PROJECTS_PER_PAGE
          then getProjects_next getProjectListPage (page + 1) (projects @ projectList)
                 (offsets @ [page * NB_PROJECTS_PER_PAGE])
          else Some \<lparr>delivered = Some (projects @ projectList),
                      requests = offsets @ [page * NB_PROJECTS_PER_PAGE]\<rparr>)"

definition getProjects :: "(nat \<Rightarrow> 'p list option) \<Rightarrow> 'p listing_result option" where
  "getProjects getProjectListPage = getProjects_next getProjectListPage 0 [] []"

section \<open>Crawler and Exporter on the event loop (main.js)\<close>

text \<open>
  The values read from the server's JSON: a project (its \<open>identifier\<close> and \<open>name\<close>), an attachment
  (\<open>id\<close>, \<open>filename\<close>), a wiki page (\<open>title\<close>, \<open>text\<close>, \<open>attachments\<close>); \<open>None\<close> is an
  undefined field. The three parsers stand for \<open>JSON.parse(body).projects\<close>,
  \<open>JSON.parse(body).wiki_pages\<close> (of which only the titles are read) and
  \<open>JSON.parse(body).wiki_page\<close>.
\<close>

record project =
  p_identifier :: string
  p_name :: string

record attachment =
  att_id :: "nat option"
  filename :: string

record wiki_page =
  title :: string
  page_text :: string
  attachments :: "attachment list option"

record parsers =
  parse_projects :: "string \<Rightarrow> project list parsed"
  parse_wiki_pages :: "string \<Rightarrow> string list parsed"
  parse_wiki_page :: "string \<Rightarrow> wiki_page parsed"

text \<open>
  A call of \<open>retryRequest\<close> together with what its caller does once it resolves: the page
  of the project listing, the wiki index of a project, one wiki page, one attachment
  (with the directory it is written to).
\<close>

datatype call =
    ListPage nat
  | WikiPages project
  | WikiPage project string
  | Attachment string attachment

datatype timeout = ThrottleTimer | RetryTimer call nat

datatype fs_op =
    Mkdir string
  | WriteFile string string
  | WriteMetadata string "project list"

text \<open>
  The state of the run: the shared \<open>throttle\<close>, the pending \<open>setTimeout\<close> callbacks with
  their due times, the requests sent and not yet answered (each with the value of its
  \<open>attempt\<close> counter), the time of the last event, the variables \<open>page\<close> and \<open>projects\<close> of
  \<open>getProjects\<close>, and three logs: the requests sent to the network with their times, the
  tasks passed to \<open>throttle.enqueue\<close>, and the file operations (assumed to succeed).
  \<open>rejected\<close> counts the tasks that ended in an exception.
\<close>

record world =
  outputDir :: "string option"
  thr :: "call Throttle"
  timeouts :: "(int \<times> timeout) list"
  inflight :: "(call \<times> nat) list"
  time :: int
  gp_page :: nat
  gp_projects :: "project list"
  netlog :: "(int \<times> call) list"
  enqueue_log :: "call list"
  fs_log :: "fs_op list"
  rejected :: nat

text \<open>String concatenation with a possibly undefined operand.\<close>

definition js_str :: "string option \<Rightarrow> string" where
  "js_str s = (case s of None \<Rightarrow> ''undefined'' | Some t \<Rightarrow> t)"

definition initDirectory :: "string option \<Rightarrow> world \<Rightarrow> world" where
  "initDirectory directory w =
     (if truthy directory then w\<lparr>fs_log := fs_log w @ [Mkdir (the directory)]\<rparr> else w)"

text \<open>\<open>requestFn(cb)\<close>: the request goes out now.\<close>

definition send :: "call \<Rightarrow> nat \<Rightarrow> world \<Rightarrow> world" where
  "send c attempt w =
     w\<lparr>inflight := inflight w @ [(c, attempt)], netlog := netlog w @ [(time w, c)]\<rparr>"

text \<open>\<open>retryRequest(requestFn)\<close> with the defaults \<open>maxRetries = 5\<close>, \<open>baseDelay = 5000\<close>:
  it calls \<open>tryRequest()\<close> at once.\<close>

definition retryRequest_call :: "call \<Rightarrow> world \<Rightarrow> world" where
  "retryRequest_call c w = send c 0 w"

definition throttle_enqueue :: "call \<Rightarrow> world \<Rightarrow> world" where
  "throttle_enqueue c w =
     (case enqueue c (time w) (thr w) of
        (th, wait) \<Rightarrow>
          w\<lparr>thr := th,
            timeouts := (case wait of None \<Rightarrow> timeouts w
                         | Some d \<Rightarrow> timeouts w @ [(time w + d, ThrottleTimer)]),
            enqueue_log := enqueue_log w @ [c]\<rparr>)"

subsection \<open>The methods of \<open>Redmine\<close>\<close>

definition getProjectListPage :: "nat \<Rightarrow> world \<Rightarrow> world" where
  "getProjectListPage pg w = throttle_enqueue (ListPage pg) w"

definition getWikiPages :: "project \<Rightarrow> world \<Rightarrow> world" where
  "getWikiPages p w = throttle_enqueue (WikiPages p) w"

definition getWikiPage :: "project \<Rightarrow> string \<Rightarrow> world \<Rightarrow> world" where
  "getWikiPage p pageName w = retryRequest_call (WikiPage p pageName) w"

text \<open>\<open>if (attachment && attachment.id)\<close>: an undefined id and the id 0 are falsy.\<close>

definition getAttachment :: "string \<Rightarrow> attachment \<Rightarrow> world \<Rightarrow> world" where
  "getAttachment attachmentDir a w =
     (case att_id a of
        None \<Rightarrow> w
      | Some n \<Rightarrow> if n = 0 then w else retryRequest_call (Attachment attachmentDir a) w)"

subsection \<open>What happens when a call resolves\<close>

text \<open>The paths the Exporter builds from \<open>outputDir\<close> by concatenation.\<close>

definition exporter_metadata_path :: "string option \<Rightarrow> string" where
  "exporter_metadata_path od = js_str od @ ''projects-metadata.json''"

definition exporter_projectDir :: "string option \<Rightarrow> string \<Rightarrow> string" where
  "exporter_projectDir od ident = js_str od @ ident"

definition backupWikiPage :: "project \<Rightarrow> wiki_page \<Rightarrow> world \<Rightarrow> world" where
  "backupWikiPage p pg w =
     (let projectDir = exporter_projectDir (outputDir w) (p_identifier p);
          w1 = initDirectory (Some projectDir) w;
          w2 = w1\<lparr>fs_log := fs_log w1 @ [WriteFile (projectDir @ ''/'' @ title pg @ ''.md'') (page_text pg)]\<rparr>
      in case attachments pg of
           None \<Rightarrow> w2
         | Some atts \<Rightarrow>
             foldl (\<lambda>v a. getAttachment (projectDir @ ''/attachments'') a v)
               (initDirectory (Some (projectDir @ ''/attachments'')) w2) atts)"

text \<open>The callback \<open>main.js\<close> passes to \<open>getProjects\<close>.\<close>

definition projects_found :: "project list \<Rightarrow> world \<Rightarrow> world" where
  "projects_found ps w =
     foldl (\<lambda>v p. getWikiPages p v)
       (w\<lparr>fs_log := fs_log w @ [WriteMetadata (exporter_metadata_path (outputDir w)) ps]\<rparr>)
       ps"

text \<open>The closure \<open>next\<close> of \<open>getProjects\<close>.\<close>

definition next_page :: "project list \<Rightarrow> world \<Rightarrow> world" where
  "next_page projectList w =
     (let w1 = w\<lparr>gp_projects := gp_projects w @ projectList\<rparr> in
      if length projectList = NB_PROJECTS_PER_PAGE
      then getProjectListPage (gp_page w1 + 1) (w1\<lparr>gp_page := gp_page w1 + 1\<rparr>)
      else projects_found (gp_projects w1) w1)"

text \<open>The callback of \<open>getWikiPages\<close> in \<open>main.js\<close>; reading \<open>pages.length\<close> of an
  undefined \<open>pages\<close> throws.\<close>

definition pages_found :: "project \<Rightarrow> string list option \<Rightarrow> world \<Rightarrow> world" where
  "pages_found p pages w =
     (case pages of
        None \<Rightarrow> w\<lparr>rejected := rejected w + 1\<rparr>
      | Some titles \<Rightarrow> foldl (\<lambda>v t. getWikiPage p t v) w titles)"

definition resolved_call :: "parsers \<Rightarrow> call \<Rightarrow> outcome \<Rightarrow> world \<Rightarrow> world" where
  "resolved_call P c out w =
     (case c of
        ListPage pg \<Rightarrow>
          (case getProjectListPage_resolved (parse_projects P) out of
             None \<Rightarrow> w
           | Some projectList \<Rightarrow> next_page projectList w)
      | WikiPages p \<Rightarrow>
          if error out \<noteq> None then w
          else if response out = Some 401 then w
          else if response out \<noteq> None \<and> response out \<noteq> Some 200 then w
          else if truthy (body out) then
            pages_found p
              (case parse_wiki_pages P (the (body out)) of
                 Throws \<Rightarrow> Some [] | Missing \<Rightarrow> None | Parsed titles \<Rightarrow> Some titles) w
          else w
      | WikiPage p pageName \<Rightarrow>
          if error out \<noteq> None then w
          else if truthy (body out) then
            (case parse_wiki_page P (the (body out)) of
               Parsed fullPage \<Rightarrow> backupWikiPage p fullPage w
             | _ \<Rightarrow> w)
          else w
      | Attachment attachmentDir a \<Rightarrow>
          if error out \<noteq> None then w
          else if truthy (body out) then
            w\<lparr>fs_log := fs_log w @ [WriteFile (attachmentDir @ ''/'' @ filename a) (the (body out))]\<rparr>
          else w)"

subsection \<open>Events\<close>

text \<open>
  A pending timeout fires, not before it is due: the Throttle's timer runs the next task,
  which calls \<open>retryRequest\<close> and returns at its \<open>await\<close>; a backoff timer of \<open>retryRequest\<close>
  calls \<open>tryRequest\<close> again. Or the answer to a request arrives: \<open>retryRequest\<close> either sets
  a backoff timer or resolves.
\<close>

datatype crawl_event = TimerFires nat int | Responds nat int outcome

definition timer_fires :: "nat \<Rightarrow> int \<Rightarrow> world \<Rightarrow> world option" where
  "timer_fires k now w =
     (if k < length (timeouts w) \<and> fst (timeouts w ! k) \<le> now \<and> time w \<le> now then
        (let w1 = w\<lparr>time := now, timeouts := take k (timeouts w) @ drop (Suc k) (timeouts w)\<rparr> in
         case snd (timeouts w ! k) of
           ThrottleTimer \<Rightarrow>
             (case timer_shift now (thr w1) of
                None \<Rightarrow> None
              | Some (c, th) \<Rightarrow>
                  let w2 = retryRequest_call c (w1\<lparr>thr := th\<rparr>) in
                  (case timer_done now (thr w2) of
                     (th', wait) \<Rightarrow>
                       Some (w2\<lparr>thr := th',
                                timeouts := (case wait of None \<Rightarrow> timeouts w2
                                   | Some d \<Rightarrow> timeouts w2 @ [(now + d, ThrottleTimer)])\<rparr>)))
         | RetryTimer c attempt \<Rightarrow> Some (send c attempt w1))
      else None)"

definition responds :: "parsers \<Rightarrow> nat \<Rightarrow> int \<Rightarrow> outcome \<Rightarrow> world \<Rightarrow> world option" where
  "responds P k now out w =
     (if k < length (inflight w) \<and> time w \<le> now then
        (let c = fst (inflight w ! k); attempt = snd (inflight w ! k);
             w1 = w\<lparr>time := now, inflight := take k (inflight w) @ drop (Suc k) (inflight w)\<rparr>
         in if (isConnectionRefused out \<or> isRateLimited out) \<and> attempt < 5
            then Some (w1\<lparr>timeouts := timeouts w1 @
                   [(now + backoff 5000 (attempt + 1), RetryTimer c (attempt + 1))]\<rparr>)
            else Some (resolved_call P c out w1))
      else None)"

fun crawl_step :: "parsers \<Rightarrow> crawl_event \<Rightarrow> world \<Rightarrow> world option" where
  "crawl_step P (TimerFires k now) w = timer_fires k now w"
| "crawl_step P (Responds k now out) w = responds P k now out w"

fun crawl :: "parsers \<Rightarrow> crawl_event list \<Rightarrow> world \<Rightarrow> world option" where
  "crawl P [] w = Some w"
| "crawl P (e # es) w = (case crawl_step P e w of None \<Rightarrow> None | Some w' \<Rightarrow> crawl P es w')"

text \<open>
  \<open>main.js\<close> from the configured output directory on, started at time \<open>now\<close>: the
  \<open>Throttle(1200)\<close>, the output directory, \<open>redmine.getProjects\<close>.
\<close>

definition main_outputDir :: "string option \<Rightarrow> string option" where
  "main_outputDir configured =
     (case configured of
        None \<Rightarrow> None
      | Some d \<Rightarrow> if d \<noteq> [] \<and> last d \<noteq> CHR ''/'' then Some (d @ ''/'') else Some d)"

definition main :: "string option \<Rightarrow> int \<Rightarrow> world" where
  "main configured now =
     getProjectListPage 0
       (initDirectory (main_outputDir configured)
          \<lparr>outputDir = main_outputDir configured, thr = new_Throttle 1200, timeouts = [],
           inflight = [], time = now, gp_page = 0, gp_projects = [], netlog = [],
           enqueue_log = [], fs_log = [], rejected = 0\<rparr>)"

section \<open>Servers for concrete runs\<close>

text \<open>
  Answers of a server: a 200 with a body, and a bare status. The parsers of the concrete
  runs read a few fixed bodies; every other body does not parse.
\<close>

definition ok :: "string \<Rightarrow> outcome" where
  "ok b = \<lparr>error = None, response = Some 200, body = Some b\<rparr>"

definition status :: "nat \<Rightarrow> outcome" where
  "status n = \<lparr>error = None, response = Some n, body = None\<rparr>"

definition project_named :: "string \<Rightarrow> project" where
  "project_named i = \<lparr>p_identifier = i, p_name = i\<rparr>"

definition picture :: attachment where
  "picture = \<lparr>att_id = Some 7, filename = ''f.png''\<rparr>"

definition demo_parsers :: parsers where
  "demo_parsers =
     \<lparr>parse_projects = (\<lambda>b.
          if b = ''1 project'' then Parsed [project_named ''p'']
          else if b = ''5 projects'' then Parsed (map project_named [''p1'', ''p2'', ''p3'', ''p4'', ''p5''])
          else if b = ''25 projects'' then Parsed (map (\<lambda>i. project_named (replicate i CHR ''p'')) [1..<26])
          else Throws),
      parse_wiki_pages = (\<lambda>b. if b = ''2 pages'' then Parsed [''A'', ''B''] else Throws),
      parse_wiki_page = (\<lambda>b.
          if b = ''page A''
          then Parsed \<lparr>title = ''A'', page_text = ''text of A'', attachments = Some [picture]\<rparr>
          else Throws)\<rparr>"

text \<open>A state of the run in which the request for the wiki index of \<open>p1\<close> is outstanding
  and the task for \<open>p2\<close> waits in the queue.\<close>

definition retry_world :: world where
  "retry_world = \<lparr>outputDir = Some ''out/'',
     thr = \<lparr>minIntervalMs = 1200, queue = [WikiPages (project_named ''p2'')], lastTime = 11200, active = True\<rparr>,
     timeouts = [(12400, ThrottleTimer)], inflight = [(WikiPages (project_named ''p1''), 0)],
     time = 11200, gp_page = 0, gp_projects = [project_named ''p1'', project_named ''p2''],
     netlog = [(11200, WikiPages (project_named ''p1''))],
     enqueue_log = [WikiPages (project_named ''p1''), WikiPages (project_named ''p2'')], fs_log = [], rejected = 0\<rparr>"

section \<open>Strings and directories of the runtime\<close>

text \<open>
  A string is a list of code units; the model covers the code units below 256. The
  methods of \<open>String\<close> the post-passes use, on these: \<open>\s\<close> matches the six ASCII white-space
  characters and the no-break space, \<open>.\<close> everything but the line terminators, \<open>\d\<close> the
  ten digits.
\<close>

definition is_space :: "char \<Rightarrow> bool" where
  "is_space c =
     (c = CHR 0x09 \<or> c = CHR 0x0A \<or> c = CHR 0x0B \<or> c = CHR 0x0C \<or> c = CHR 0x0D \<or>
      c = CHR 0x20 \<or> c = CHR 0xA0)"

definition line_terminator :: "char \<Rightarrow> bool" where
  "line_terminator c = (c = CHR 0x0A \<or> c = CHR 0x0D)"

definition is_digit :: "char \<Rightarrow> bool" where
  "is_digit c = (c \<in> set ''0123456789'')"

definition startsWith :: "string \<Rightarrow> string \<Rightarrow> bool" where
  "startsWith s p = (take (length p) s = p)"




text \<open>\<open>s.replace(/\s+/g, rep)\<close>: every maximal run of white space becomes \<open>rep\<close>.\<close>

function replace_ws :: "string \<Rightarrow> string \<Rightarrow> string" where
  "replace_ws [] rep = []"
| "replace_ws (c # cs) rep =
     (if is_space c then rep @ replace_ws (dropWhile is_space cs) rep
      else c # replace_ws cs rep)"
  by pat_completeness auto
termination
  by (relation "measure (\<lambda>(s, rep). length s)")
    (auto simp: le_imp_less_Suc length_dropWhile_le)



text \<open>
  A directory tree: the entries of a directory in the order \<open>readdirSync\<close> lists them.
\<close>

datatype node = File string | Dir "(string \<times> node) list"

definition isDirectory :: "node \<Rightarrow> bool" where
  "isDirectory n = (case n of Dir entries \<Rightarrow> True | File content \<Rightarrow> False)"

datatype fs_error = EISDIR | ENOENT | URIError



section \<open>The directories of the post-passes (fix-links.js, create-indexes.js)\<close>




text \<open>
  Which file a path names: its segments between slashes, resolved against the working
  directory when the path is relative, with empty segments and \<open>.\<close> dropped and \<open>..\<close> going
  up, as \<open>path.resolve\<close> does on POSIX.
\<close>

fun split_slash :: "string \<Rightarrow> string list" where
  "split_slash [] = [[]]"
| "split_slash (c # cs) =
     (if c = CHR ''/'' then [] # split_slash cs
      else (case split_slash cs of [] \<Rightarrow> [[c]] | seg # segs \<Rightarrow> (c # seg) # segs))"

definition norm_step :: "string list \<Rightarrow> string \<Rightarrow> string list" where
  "norm_step acc seg =
     (if seg = [] \<or> seg = ''.'' then acc
      else if seg = ''..'' then butlast acc
      else acc @ [seg])"



section \<open>LinkRewriter (fix-links.js)\<close>

subsection \<open>Global replacement with a pattern\<close>

text \<open>
  \<open>content.replace(regex, callback)\<close> with a global regex walks the string from left to
  right: where the pattern matches, the callback gets the captured groups and the walk goes
  on behind the match; elsewhere the character is kept. A pattern is given by its matcher
  at the start of a string, which returns the groups and the rest behind the match.
  \<open>scan\<close> yields the kept characters and the matches in order (after an empty match the
  walk moves on by one character).
\<close>

function scan :: "(string \<Rightarrow> ('m \<times> string) option) \<Rightarrow> string \<Rightarrow> (char + 'm) list" where
  "scan f [] = (case f [] of None \<Rightarrow> [] | Some (r, rest) \<Rightarrow> [Inr r])"
| "scan f (c # cs) =
     (case f (c # cs) of
        None \<Rightarrow> Inl c # scan f cs
      | Some (r, rest) \<Rightarrow>
          if length rest \<le> length cs then Inr r # scan f rest
          else Inr r # Inl c # scan f cs)"
  by pat_completeness auto
termination
  by (relation "measure (\<lambda>(f, s). length s)") auto

definition replace_all ::
  "(string \<Rightarrow> ('m \<times> string) option) \<Rightarrow> ('m \<Rightarrow> string) \<Rightarrow> string \<Rightarrow> string" where
  "replace_all f callback s = concat (map (case_sum (\<lambda>c. [c]) callback) (scan f s))"

text \<open>Literal text in a pattern.\<close>

definition strip_prefix :: "string \<Rightarrow> string \<Rightarrow> string option" where
  "strip_prefix p s = (if startsWith s p then Some (drop (length p) s) else None)"

text \<open>
  The lazy \<open>.*?\<close> followed by the rest \<open>k\<close> of a pattern: the shortest run of characters
  other than line terminators behind which \<open>k\<close> matches.
\<close>

fun lazy_dots :: "(string \<Rightarrow> 'm option) \<Rightarrow> string \<Rightarrow> (string \<times> 'm) option" where
  "lazy_dots k [] = (case k [] of None \<Rightarrow> None | Some r \<Rightarrow> Some ([], r))"
| "lazy_dots k (c # cs) =
     (case k (c # cs) of
        Some r \<Rightarrow> Some ([], r)
      | None \<Rightarrow>
          if line_terminator c then None
          else (case lazy_dots k cs of None \<Rightarrow> None | Some (t, r) \<Rightarrow> Some (c # t, r)))"

subsection \<open>Category 1: wiki cross-references\<close>

text \<open>
  The pattern \<open>\[\[([^\]]+)\]\]\<close>: two opening brackets, the longest non-empty run of
  characters other than \<open>]\<close>, two closing brackets. (A shorter run cannot be followed by
  \<open>]\<close>, so the greedy run is the only candidate.)
\<close>

definition match_wiki_ref :: "string \<Rightarrow> (string \<times> string) option" where
  "match_wiki_ref s =
     (case strip_prefix ''[['' s of
        None \<Rightarrow> None
      | Some t \<Rightarrow>
          let pageName = takeWhile (\<lambda>c. c \<noteq> CHR '']'') t in
          if pageName = [] then None
          else (case strip_prefix '']]'' (dropWhile (\<lambda>c. c \<noteq> CHR '']'') t) of
                  None \<Rightarrow> None
                | Some rest \<Rightarrow> Some (pageName, rest)))"

text \<open>The callback; \<open>pageName.split(':', 2)\<close> gives the text before the first colon and
  the text between the first and the second.\<close>

definition wiki_ref_link :: "string \<Rightarrow> string" where
  "wiki_ref_link pageName =
     (if CHR '':'' \<in> set pageName then
        (let project = takeWhile (\<lambda>c. c \<noteq> CHR '':'') pageName;
             page = takeWhile (\<lambda>c. c \<noteq> CHR '':'')
                      (tl (dropWhile (\<lambda>c. c \<noteq> CHR '':'') pageName));
             pageFile = replace_ws page ''_''
         in ''['' @ page @ ''](../'' @ project @ ''/'' @ pageFile @ ''.md)'')
      else ''['' @ pageName @ '']('' @ replace_ws pageName ''_'' @ ''.md)'')"

subsection \<open>Category 2: absolute links to wiki pages\<close>

text \<open>
  The URL of the configuration without a trailing slash, or the default. Its special
  characters are escaped before it enters a pattern, so it stands for itself there.
\<close>

definition fix_links_redmineUrl :: "string option \<Rightarrow> string" where
  "fix_links_redmineUrl configured =
     (case configured of
        None \<Rightarrow> ''https://www.redmine.org''
      | Some u \<Rightarrow>
          if u = [] then ''https://www.redmine.org''
          else if last u = CHR ''/'' then butlast u else u)"

text \<open>
  The pattern \<open>(\[.*?\])\(URL/projects/([^/]+)/wiki/([^)#?]+)(#[^)]+)?\)\<close>. Behind the
  lazy link text every part is a greedy run that ends at a character fixed by what follows,
  so each has one candidate only.
\<close>

definition page_char :: "char \<Rightarrow> bool" where
  "page_char c = (c \<noteq> CHR '')'' \<and> c \<noteq> CHR ''#'' \<and> c \<noteq> CHR ''?'')"

definition wiki_link_tail ::
  "string \<Rightarrow> string \<Rightarrow> (string \<times> string \<times> string option \<times> string) option" where
  "wiki_link_tail url s =
     (case strip_prefix ('']('' @ url @ ''/projects/'') s of
        None \<Rightarrow> None
      | Some t1 \<Rightarrow>
          let linkProject = takeWhile (\<lambda>c. c \<noteq> CHR ''/'') t1 in
          if linkProject = [] then None
          else (case strip_prefix ''/wiki/'' (dropWhile (\<lambda>c. c \<noteq> CHR ''/'') t1) of
                  None \<Rightarrow> None
                | Some t2 \<Rightarrow>
                    let page = takeWhile page_char t2 in
                    if page = [] then None
                    else (case dropWhile page_char t2 of
                            [] \<Rightarrow> None
                          | c # t3 \<Rightarrow>
                              if c = CHR '')'' then Some (linkProject, page, None, t3)
                              else if c = CHR ''#'' then
                                (let a = takeWhile (\<lambda>c. c \<noteq> CHR '')'') t3 in
                                 if a = [] then None
                                 else (case dropWhile (\<lambda>c. c \<noteq> CHR '')'') t3 of
                                         [] \<Rightarrow> None
                                       | c' # rest \<Rightarrow>
                                           Some (linkProject, page, Some (CHR ''#'' # a), rest)))
                              else None)))"

definition match_wiki_link ::
  "string \<Rightarrow> string \<Rightarrow> ((string \<times> string \<times> string \<times> string option) \<times> string) option" where
  "match_wiki_link url s =
     (case strip_prefix ''['' s of
        None \<Rightarrow> None
      | Some t \<Rightarrow>
          (case lazy_dots (wiki_link_tail url) t of
             None \<Rightarrow> None
           | Some (inner, linkProject, page, anchor, rest) \<Rightarrow>
               Some ((''['' @ inner @ '']'', linkProject, page, anchor), rest)))"

definition wiki_link_rel ::
  "string \<Rightarrow> string \<times> string \<times> string \<times> string option \<Rightarrow> string" where
  "wiki_link_rel currentProject m =
     (case m of (text, linkProject, page, anchor) \<Rightarrow>
        text @ ''('' @
        (if linkProject = currentProject then page @ ''.md''
         else ''../'' @ linkProject @ ''/'' @ page @ ''.md'') @
        (case anchor of None \<Rightarrow> [] | Some a \<Rightarrow> a) @ '')'')"

text \<open>Categories 1 and 2, in the order of \<open>processMarkdownFile\<close>.\<close>

definition rewrite_wiki_refs :: "string \<Rightarrow> string" where
  "rewrite_wiki_refs content = replace_all match_wiki_ref wiki_ref_link content"

definition rewrite_wiki_links :: "string \<Rightarrow> string \<Rightarrow> string \<Rightarrow> string" where
  "rewrite_wiki_links url currentProject content =
     replace_all (match_wiki_link url) (wiki_link_rel currentProject) content"

definition rewrite_wiki :: "string \<Rightarrow> string \<Rightarrow> string \<Rightarrow> string" where
  "rewrite_wiki url currentProject content =
     rewrite_wiki_links url currentProject (rewrite_wiki_refs content)"


subsection \<open>Category 3: absolute links to attachments\<close>

text \<open>
  The pattern \<open>(!\[.*?\])\(URL/attachments/(?:download/)?(\d+)/([^)]+)\)\<close>. The match
  carries the matched text, the image text with its brackets, the id and the file name.
\<close>

definition attachment_tail :: "string \<Rightarrow> string \<Rightarrow> (string \<times> string \<times> string) option" where
  "attachment_tail url s =
     (case strip_prefix ('']('' @ url @ ''/attachments/'') s of
        None \<Rightarrow> None
      | Some t1 \<Rightarrow>
          let t2 = (case strip_prefix ''download/'' t1 of None \<Rightarrow> t1 | Some u \<Rightarrow> u);
              ident = takeWhile is_digit t2
          in if ident = [] then None
             else (case strip_prefix ''/'' (dropWhile is_digit t2) of
                     None \<Rightarrow> None
                   | Some t3 \<Rightarrow>
                       let fname = takeWhile (\<lambda>c. c \<noteq> CHR '')'') t3 in
                       if fname = [] then None
                       else (case dropWhile (\<lambda>c. c \<noteq> CHR '')'') t3 of
                               [] \<Rightarrow> None
                             | c # rest \<Rightarrow> Some (ident, fname, rest))))"

definition match_attachment ::
  "string \<Rightarrow> string \<Rightarrow> ((string \<times> string \<times> string \<times> string) \<times> string) option" where
  "match_attachment url s =
     (case strip_prefix ''!['' s of
        None \<Rightarrow> None
      | Some t \<Rightarrow>
          (case lazy_dots (attachment_tail url) t of
             None \<Rightarrow> None
           | Some (inner, ident, fname, rest) \<Rightarrow>
               Some ((take (length s - length rest) s, ''!['' @ inner @ '']'', ident, fname), rest)))"

text \<open>
  \<open>decodeURIComponent\<close> (which throws on a malformed escape) and \<open>encodeURIComponent\<close>
  belong to the runtime and are parameters.
\<close>

record runtime =
  decodeURIComponent :: "string \<Rightarrow> string option"
  encodeURIComponent :: "string \<Rightarrow> string"

text \<open>
  Paths into the tree are lists of names from its root. \<open>path.join(dir, name)\<close> resolves
  the segments of \<open>name\<close> from \<open>dir\<close> on.
\<close>

fun lookup :: "node \<Rightarrow> string list \<Rightarrow> node option" where
  "lookup n [] = Some n"
| "lookup (File content) (x # xs) = None"
| "lookup (Dir entries) (x # xs) =
     (case map_of entries x of None \<Rightarrow> None | Some n \<Rightarrow> lookup n xs)"

definition existsSync :: "node \<Rightarrow> string list \<Rightarrow> bool" where
  "existsSync root p = (lookup root p \<noteq> None)"

definition join_name :: "string list \<Rightarrow> string \<Rightarrow> string list" where
  "join_name dir n = foldl norm_step dir (split_slash n)"

text \<open>\<open>readdirSync(dir).filter(p => statSync(join(dir, p)).isDirectory())\<close>.\<close>

definition directories :: "node \<Rightarrow> string list \<Rightarrow> string list" where
  "directories root dir =
     (case lookup root dir of
        Some (Dir entries) \<Rightarrow> map fst (filter (\<lambda>(n, e). isDirectory e) entries)
      | _ \<Rightarrow> [])"

text \<open>
  The callback for an attachment match in a file of the directory \<open>projectDir\<close>: the
  replacement and the names warned about, or the error thrown.
\<close>

definition attachment_link ::
  "runtime \<Rightarrow> node \<Rightarrow> string list \<Rightarrow> string \<times> string \<times> string \<times> string \<Rightarrow>
   fs_error + string \<times> string list" where
  "attachment_link rt root projectDir m =
     (case m of (matched, text, ident, fname) \<Rightarrow>
        (case decodeURIComponent rt fname of
           None \<Rightarrow> Inl URIError
         | Some decodedFilename \<Rightarrow>
             if existsSync root (join_name (projectDir @ [''attachments'']) decodedFilename)
             then Inr (text @ ''(attachments/'' @ encodeURIComponent rt decodedFilename @ '')'', [])
             else
               (case find (\<lambda>proj. existsSync root
                            (join_name (butlast projectDir @ [proj, ''attachments'']) decodedFilename))
                       (directories root (butlast projectDir)) of
                  Some proj \<Rightarrow>
                    Inr (text @ ''(../'' @ proj @ ''/attachments/'' @
                         encodeURIComponent rt decodedFilename @ '')'', [])
                | None \<Rightarrow> Inr (matched, [decodedFilename]))))"

fun emit ::
  "('m \<Rightarrow> fs_error + string \<times> string list) \<Rightarrow> (char + 'm) list \<Rightarrow>
   fs_error + string \<times> string list" where
  "emit callback [] = Inr ([], [])"
| "emit callback (Inl c # ts) =
     (case emit callback ts of Inl e \<Rightarrow> Inl e | Inr (s, ws) \<Rightarrow> Inr (c # s, ws))"
| "emit callback (Inr m # ts) =
     (case callback m of
        Inl e \<Rightarrow> Inl e
      | Inr (r, w) \<Rightarrow>
          (case emit callback ts of Inl e \<Rightarrow> Inl e | Inr (s, ws) \<Rightarrow> Inr (r @ s, w @ ws)))"

definition rewrite_attachments ::
  "runtime \<Rightarrow> string \<Rightarrow> node \<Rightarrow> string list \<Rightarrow> string \<Rightarrow> fs_error + string \<times> string list" where
  "rewrite_attachments rt url root projectDir content =
     emit (attachment_link rt root projectDir) (scan (match_attachment url) content)"

text \<open>
  \<open>processMarkdownFile\<close>: the content written back to the file and the warnings, or the
  error thrown. The project of a file is the name of its directory.
\<close>

definition processMarkdownFile ::
  "runtime \<Rightarrow> string \<Rightarrow> node \<Rightarrow> string list \<Rightarrow> fs_error + string \<times> string list" where
  "processMarkdownFile rt url root filePath =
     (case lookup root filePath of
        None \<Rightarrow> Inl ENOENT
      | Some (Dir entries) \<Rightarrow> Inl EISDIR
      | Some (File content) \<Rightarrow>
          let projectDir = butlast filePath;
              currentProject = (if projectDir = [] then [] else last projectDir)
          in rewrite_attachments rt url root projectDir (rewrite_wiki url currentProject content))"

subsection \<open>A runtime and a tree for concrete runs\<close>





section \<open>IndexBuilder (create-indexes.js)\<close>





chapter \<open>Properties\<close>

section \<open>RetryPolicy: transient failures followed by a success\<close>

lemma tryRequest_run:
  assumes "\<forall>i. a \<le> i \<and> i < K \<longrightarrow> transient (requestFn i)"
    and "\<not> transient (requestFn K)" and "a \<le> K" and "K \<le> maxRetries"
  shows "tryRequest requestFn maxRetries baseDelay a a delays =
           \<lparr>resolved = requestFn K, invocations = K + 1,
            waits = delays @ map (\<lambda>i. baseDelay * 2 ^ i) [a..<K]\<rparr>"
  using assms
proof (induction "K - a" arbitrary: a delays)
  case 0
  then have "a = K" by simp
  with 0 show ?case
    by (subst tryRequest.simps) (simp add: transient_def)
next
  case (Suc n)
  then have lt: "a < K" by simp
  with Suc.prems have tr: "transient (requestFn a)" by simp
  have step: "tryRequest requestFn maxRetries baseDelay a a delays =
      tryRequest requestFn maxRetries baseDelay (a + 1) (a + 1) (delays @ [baseDelay * 2 ^ a])"
    using tr lt Suc.prems(4)
    by (subst tryRequest.simps) (simp add: transient_def backoff_def)
  have "tryRequest requestFn maxRetries baseDelay (a + 1) (a + 1) (delays @ [baseDelay * 2 ^ a]) =
      \<lparr>resolved = requestFn K, invocations = K + 1,
       waits = (delays @ [baseDelay * 2 ^ a]) @ map (\<lambda>i. baseDelay * 2 ^ i) [a + 1..<K]\<rparr>"
    using Suc.hyps(2) Suc.prems lt by (intro Suc.hyps(1)) auto
  with step lt show ?case
    by (simp add: upt_conv_Cons)
qed

text \<open>
  Claim C4. If \<open>requestFn\<close> gives a transient outcome (error code ECONNREFUSED or
  ECONNRESET, or status 429 or 503) on its first \<open>K\<close> invocations and a non-transient one
  on the next, and \<open>K \<le> maxRetries\<close>, then \<open>retryRequest\<close> resolves with that outcome,
  has invoked \<open>requestFn\<close> exactly \<open>K + 1\<close> times, and has waited
  \<open>baseDelay * 2^0, ..., baseDelay * 2^(K-1)\<close> before the retries, in this order.
\<close>

theorem retryRequest_transient_then_success:
  assumes "\<forall>i<K. transient (requestFn i)"
    and "\<not> transient (requestFn K)"
    and "K \<le> maxRetries"
  shows "retryRequest requestFn maxRetries baseDelay =
           \<lparr>resolved = requestFn K, invocations = K + 1,
            waits = map (\<lambda>i. baseDelay * 2 ^ i) [0..<K]\<rparr>"
  unfolding retryRequest_def
  using tryRequest_run [of 0 K requestFn maxRetries baseDelay "[]"] assms by simp

theorem retryRequest_transient_then_success_witness:
  "retryRequest
     (\<lambda>n. if n < 2 then \<lparr>error = None, response = Some 503, body = None\<rparr>
          else \<lparr>error = None, response = Some 200, body = Some ''ok''\<rparr>) 5 5000 =
   \<lparr>resolved = \<lparr>error = None, response = Some 200, body = Some ''ok''\<rparr>,
    invocations = 3, waits = [5000, 10000]\<rparr>"
  using retryRequest_transient_then_success
    [of 2 "\<lambda>n. if n < 2 then \<lparr>error = None, response = Some 503, body = None\<rparr>
          else \<lparr>error = None, response = Some 200, body = Some ''ok''\<rparr>" 5 5000]
  by (simp add: transient_def isConnectionRefused_def isRateLimited_def upt_rec)

section \<open>Throttle: FIFO order and minimum spacing\<close>

lemma lane_enqueue_active:
  "active (throttle s) \<Longrightarrow>
   lane_enqueue now s fn = s\<lparr>throttle := (throttle s)\<lparr>queue := queue (throttle s) @ [fn]\<rparr>\<rparr>"
  by (simp add: lane_enqueue_def enqueue_def process_def schedule_def)

lemma foldl_lane_enqueue_active:
  "active (throttle s) \<Longrightarrow>
   foldl (lane_enqueue now) s nested =
     s\<lparr>throttle := (throttle s)\<lparr>queue := queue (throttle s) @ nested\<rparr>\<rparr>"
  by (induction nested arbitrary: s) (simp_all add: lane_enqueue_active)

lemma lane_enqueue_inv:
  assumes "lane_inv s"
  shows "lane_inv ((lane_enqueue now s fn)\<lparr>clock := now\<rparr>)"
  using assms
  by (auto simp: lane_inv_def lane_enqueue_def enqueue_def process_def schedule_def)

lemma lane_enqueue_facts:
  "queue (throttle (lane_enqueue now s fn)) = queue (throttle s) @ [fn]"
  "started (lane_enqueue now s fn) = started s"
  "minIntervalMs (throttle (lane_enqueue now s fn)) = minIntervalMs (throttle s)"
  by (simp_all add: lane_enqueue_def enqueue_def process_def)

lemma lane_fire_inv:
  assumes "lane_inv s" and "lane_fire k now nested fin s = Some s'"
  shows "lane_inv s'"
    and "map snd (started s') @ queue (throttle s') =
         map snd (started s) @ queue (throttle s) @ nested"
    and "minIntervalMs (throttle s') = minIntervalMs (throttle s)"
proof -
  from assms(2) have k: "k < length (timers s)" and due: "timers s ! k \<le> now"
    and fin: "now \<le> fin" and clk: "clock s \<le> now"
    by (auto simp: lane_fire_def split: if_splits)
  with assms(1) obtain due0 where ts: "timers s = [due0]" and k0: "k = 0"
    and act: "active (throttle s)"
    by (cases "timers s") (auto simp: lane_inv_def)
  from assms(1) ts obtain fn rest where q: "queue (throttle s) = fn # rest"
    by (cases "queue (throttle s)") (auto simp: lane_inv_def)
  let ?th = "(throttle s)\<lparr>lastTime := now, queue := rest\<rparr>"
  let ?s1 = "s\<lparr>throttle := ?th, timers := [], started := started s @ [(now, fn)]\<rparr>"
  have s2: "foldl (lane_enqueue now) ?s1 nested =
      ?s1\<lparr>throttle := ?th\<lparr>queue := rest @ nested\<rparr>\<rparr>"
    using act by (subst foldl_lane_enqueue_active) simp_all
  have "lane_fire k now nested fin s =
      (case timer_done fin (throttle (foldl (lane_enqueue now) ?s1 nested)) of
         (th', wait) \<Rightarrow>
           Some ((foldl (lane_enqueue now) ?s1 nested)\<lparr>throttle := th',
             timers := schedule fin wait (timers (foldl (lane_enqueue now) ?s1 nested)),
             clock := fin\<rparr>))"
    using due fin clk ts k0 q
    by (simp add: lane_fire_def timer_shift_def Let_def)
  with assms(2) have s': "s' = (case timer_done fin (?th\<lparr>queue := rest @ nested\<rparr>) of
      (th', wait) \<Rightarrow> ?s1\<lparr>throttle := th', timers := schedule fin wait [], clock := fin\<rparr>)"
    unfolding s2 by (auto split: prod.splits)
  have gap: "started s \<noteq> [] \<Longrightarrow> fst (last (started s)) + minIntervalMs (throttle s) \<le> now"
    using assms(1) ts due k0 by (auto simp: lane_inv_def)
  have succ: "successively (\<lambda>a b. fst a + minIntervalMs (throttle s) \<le> fst b)
      (started s @ [(now, fn)])"
    using assms(1) gap by (auto simp: lane_inv_def successively_append_iff)
  show "lane_inv s'"
    using s' succ fin
    by (auto simp: lane_inv_def timer_done_def process_def schedule_def)
  show "map snd (started s') @ queue (throttle s') =
         map snd (started s) @ queue (throttle s) @ nested"
    using s' q by (auto simp: timer_done_def process_def)
  show "minIntervalMs (throttle s') = minIntervalMs (throttle s)"
    using s' by (auto simp: timer_done_def process_def)
qed


lemma exec_inv:
  assumes "lane_inv s" and "exec evs s = Some s'"
  shows "lane_inv s' \<and>
         map snd (started s') @ queue (throttle s') =
           map snd (started s) @ queue (throttle s) @ enqueued evs \<and>
         minIntervalMs (throttle s') = minIntervalMs (throttle s)"
  using assms
proof (induction evs arbitrary: s)
  case Nil
  then show ?case by simp
next
  case (Cons e evs)
  from Cons.prems(2) obtain s1 where s1: "step e s = Some s1" and rest: "exec evs s1 = Some s'"
    by (auto split: option.splits)
  have "lane_inv s1 \<and>
        map snd (started s1) @ queue (throttle s1) =
          map snd (started s) @ queue (throttle s) @ enqueued [e] \<and>
        minIntervalMs (throttle s1) = minIntervalMs (throttle s)"
  proof (cases e)
    case (Enqueue now fn)
    with s1 have "s1 = (lane_enqueue now s fn)\<lparr>clock := now\<rparr>"
      by (auto split: if_splits)
    then show ?thesis
      using Enqueue lane_enqueue_inv [OF Cons.prems(1), of now fn]
      by (simp add: lane_enqueue_facts)
  next
    case (Fire k now nested fin)
    with s1 have "lane_fire k now nested fin s = Some s1" by simp
    from lane_fire_inv [OF Cons.prems(1) this] Fire show ?thesis by simp
  qed
  moreover from this rest have "lane_inv s' \<and>
         map snd (started s') @ queue (throttle s') =
           map snd (started s1) @ queue (throttle s1) @ enqueued evs \<and>
         minIntervalMs (throttle s') = minIntervalMs (throttle s1)"
    by (intro Cons.IH) simp_all
  moreover have "enqueued (e # evs) = enqueued [e] @ enqueued evs"
    by (cases e) simp_all
  ultimately show ?case by simp
qed

lemma new_lane_inv: "lane_inv (new_lane m)"
  by (simp add: lane_inv_def new_lane_def new_Throttle_def)

text \<open>
  Claim C3. Whatever the times at which tasks are enqueued and at which the timers fire
  (never before they are due), the tasks a Throttle with minimum interval \<open>m\<close> has
  started are, in this order, the first of the tasks enqueued, the others still waiting in
  the queue in their order (FIFO); and between the start times of two tasks started one
  after the other lie at least \<open>m\<close> milliseconds.
\<close>

theorem throttle_fifo_min_gap:
  assumes "exec evs (new_lane m) = Some s"
  shows "map snd (started s) @ queue (throttle s) = enqueued evs \<and>
         map snd (started s) = take (length (started s)) (enqueued evs) \<and>
         successively (\<lambda>a b. m \<le> fst b - fst a) (started s)"
proof -
  from exec_inv [OF new_lane_inv assms]
  have inv: "lane_inv s"
    and fifo: "map snd (started s) @ queue (throttle s) = enqueued evs"
    and m: "minIntervalMs (throttle s) = m"
    by (simp_all add: new_lane_def new_Throttle_def)
  from fifo have "take (length (started s)) (enqueued evs) = map snd (started s)"
    by (metis append_eq_conv_conj length_map)
  moreover from inv m have "successively (\<lambda>a b. fst a + m \<le> fst b) (started s)"
    by (simp add: lane_inv_def)
  then have "successively (\<lambda>a b. m \<le> fst b - fst a) (started s)"
    by (rule successively_mono) (simp_all add: algebra_simps)
  ultimately show ?thesis using fifo by simp
qed

theorem throttle_fifo_min_gap_witness:
  "exec [Enqueue 5000 ''a'', Enqueue 5000 ''b'', Fire 0 5000 [] 5000, Enqueue 5100 ''c'',
         Fire 0 6200 [] 6201, Fire 0 7401 [] 7401] (new_lane 1200) =
     Some \<lparr>throttle = \<lparr>minIntervalMs = 1200, queue = [], lastTime = 7401, active = False\<rparr>,
           timers = [], clock = 7401,
           started = [(5000, ''a''), (6200, ''b''), (7401, ''c'')]\<rparr>
   \<and> map snd [(5000::int, ''a''), (6200, ''b''), (7401, ''c'')] @ [] = [''a'', ''b'', ''c'']
   \<and> successively (\<lambda>a b. 1200 \<le> fst b - fst a) [(5000::int, ''a''), (6200, ''b''), (7401, ''c'')]"
proof -
  have run: "exec [Enqueue 5000 ''a'', Enqueue 5000 ''b'', Fire 0 5000 [] 5000, Enqueue 5100 ''c'',
         Fire 0 6200 [] 6201, Fire 0 7401 [] 7401] (new_lane 1200) =
     Some \<lparr>throttle = \<lparr>minIntervalMs = 1200, queue = [], lastTime = 7401, active = False\<rparr>,
           timers = [], clock = 7401,
           started = [(5000, ''a''), (6200, ''b''), (7401, ''c'')]\<rparr>"
    by (simp add: new_lane_def new_Throttle_def lane_enqueue_def enqueue_def process_def
        schedule_def lane_fire_def timer_shift_def timer_done_def)
  from throttle_fifo_min_gap [OF run] run show ?thesis by simp
qed

section \<open>Crawler: pagination of the project listing\<close>

lemma getProjects_next_run:
  assumes "\<forall>i. page \<le> i \<and> i \<le> k \<longrightarrow> listing (i * NB_PROJECTS_PER_PAGE) = Some (pages i)"
    and "\<forall>i. page \<le> i \<and> i < k \<longrightarrow> length (pages i) = NB_PROJECTS_PER_PAGE"
    and "length (pages k) \<noteq> NB_PROJECTS_PER_PAGE"
    and "page \<le> k"
  shows "getProjects_next listing page projects offsets =
           Some \<lparr>delivered = Some (projects @ concat (map pages [page..<Suc k])),
                 requests = offsets @ map (\<lambda>i. i * NB_PROJECTS_PER_PAGE) [page..<Suc k]\<rparr>"
  using assms
proof (induction "k - page" arbitrary: page projects offsets)
  case 0
  then have "page = k" by simp
  with 0 show ?case
    by (subst getProjects_next.simps) simp
next
  case (Suc n)
  then have lt: "page < k" by simp
  with Suc.prems have here: "listing (page * NB_PROJECTS_PER_PAGE) = Some (pages page)"
    and full: "length (pages page) = NB_PROJECTS_PER_PAGE" by simp_all
  have step: "getProjects_next listing page projects offsets =
      getProjects_next listing (page + 1) (projects @ pages page)
        (offsets @ [page * NB_PROJECTS_PER_PAGE])"
    by (subst getProjects_next.simps) (simp add: here full)
  have "getProjects_next listing (page + 1) (projects @ pages page)
          (offsets @ [page * NB_PROJECTS_PER_PAGE]) =
        Some \<lparr>delivered = Some ((projects @ pages page) @ concat (map pages [page + 1..<Suc k])),
              requests = (offsets @ [page * NB_PROJECTS_PER_PAGE]) @
                map (\<lambda>i. i * NB_PROJECTS_PER_PAGE) [page + 1..<Suc k]\<rparr>"
    using Suc.hyps(2) Suc.prems lt by (intro Suc.hyps(1)) auto
  moreover have "[page..<Suc k] = page # [page + 1..<Suc k]"
    using lt by (simp add: upt_conv_Cons)
  ultimately show ?case
    using step by simp
qed

text \<open>
  Claim C5. When the listing returns full pages (exactly the page size, 25) for the rounds
  \<open>0, ..., k-1\<close> and a page with fewer entries in round \<open>k\<close>, \<open>getProjects\<close> returns: it has
  issued exactly the \<open>k + 1\<close> page requests at the offsets \<open>0, 25, ..., 25 * k\<close> (one page size
  further each round, none after the short page), and it hands all entries to its callback
  in the order of discovery. For pages of sizes 25, 25 and 7 these are the three requests at
  0, 25 and 50 and 57 entries.
\<close>

theorem getProjects_pagination:
  assumes "\<forall>i\<le>k. listing (i * NB_PROJECTS_PER_PAGE) = Some (pages i)"
    and "\<forall>i<k. length (pages i) = NB_PROJECTS_PER_PAGE"
    and "length (pages k) < NB_PROJECTS_PER_PAGE"
  shows "getProjects listing =
           Some \<lparr>delivered = Some (concat (map pages [0..<Suc k])),
                 requests = map (\<lambda>i. i * NB_PROJECTS_PER_PAGE) [0..<Suc k]\<rparr>"
  unfolding getProjects_def
  using getProjects_next_run [of 0 k listing pages "[]" "[]"] assms by simp

theorem getProjects_pagination_witness:
  "getProjects (\<lambda>offset. if offset = 0 then Some [0..<25]
                  else if offset = 25 then Some [25..<50]
                  else if offset = 50 then Some [50..<57] else None) =
     Some \<lparr>delivered = Some [0..<57], requests = [0, 25, 50]\<rparr>
   \<and> length [0..<57::nat] = 57"
proof -
  let ?l = "\<lambda>offset::nat. if offset = 0 then Some [0..<25::nat]
                  else if offset = 25 then Some [25..<50]
                  else if offset = 50 then Some [50..<57] else None"
  let ?p = "\<lambda>i::nat. if i = 0 then [0..<25::nat] else if i = 1 then [25..<50] else [50..<57]"
  have h1: "\<forall>i\<le>2. ?l (i * NB_PROJECTS_PER_PAGE) = Some (?p i)"
    by (auto simp: NB_PROJECTS_PER_PAGE_def le_Suc_eq numeral_2_eq_2)
  have h2: "\<forall>i<2. length (?p i) = NB_PROJECTS_PER_PAGE"
    by (auto simp: NB_PROJECTS_PER_PAGE_def less_Suc_eq numeral_2_eq_2)
  have h3: "length (?p 2) < NB_PROJECTS_PER_PAGE"
    by (simp add: NB_PROJECTS_PER_PAGE_def)
  have c: "concat (map ?p [0..<Suc 2]) = [0..<57]"
    by (simp add: upt_rec)
  have r: "map (\<lambda>i. i * NB_PROJECTS_PER_PAGE) [0..<Suc 2] = [0, 25, 50]"
    by (simp add: NB_PROJECTS_PER_PAGE_def upt_rec)
  show ?thesis
    using getProjects_pagination [of 2 ?l ?p, OF h1 h2 h3] unfolding c r by simp
qed

section \<open>Crawler: which requests pass through the Throttle\<close>

text \<open>
  Claim C1 (every request the Crawler sends has been enqueued on the Throttle) fails on
  the code. A server with one project \<open>p\<close> whose wiki index lists the pages \<open>A\<close> and \<open>B\<close>,
  page \<open>A\<close> having one attachment: the run sends five requests, and only the first two (the
  project listing and the wiki index) were ever passed to \<open>throttle.enqueue\<close>.
  \<open>getWikiPage\<close> and \<open>getAttachment\<close> call \<open>retryRequest\<close> directly: the requests for both
  pages leave at the same instant, 50 ms after the request for the index.
\<close>

theorem page_and_attachment_requests_bypass_throttle:
  "map_option (\<lambda>w. (netlog w, enqueue_log w))
     (crawl demo_parsers
        [TimerFires 0 10000, Responds 0 10050 (ok ''1 project''),
         TimerFires 0 11200, Responds 0 11250 (ok ''2 pages''),
         Responds 0 11300 (ok ''page A'')]
        (main (Some ''out'') 10000)) =
   Some ([(10000, ListPage 0),
          (11200, WikiPages (project_named ''p'')),
          (11250, WikiPage (project_named ''p'') ''A''),
          (11250, WikiPage (project_named ''p'') ''B''),
          (11300, Attachment ''out/p/attachments'' picture)],
         [ListPage 0, WikiPages (project_named ''p'')])"
  by code_simp

section \<open>Crawler: an error on a page of the project listing\<close>

text \<open>
  Claim C2 (an error on one call skips that unit of work only) fails on the code. The
  first page of the listing returns 25 projects, the request for the second page is
  answered with status 500. \<open>getProjectListPage\<close> logs the status and never calls \<open>next\<close>,
  so the callback of \<open>getProjects\<close> is never invoked: the run is over (no timer pending,
  no request outstanding, the queue empty) with 25 projects collected, of which none has
  been handed on: no metadata file, no request for any wiki index.
\<close>

theorem listing_error_ends_run:
  "map_option
     (\<lambda>w. (length (gp_projects w), netlog w, timeouts w, inflight w, queue (thr w), fs_log w))
     (crawl demo_parsers
        [TimerFires 0 10000, Responds 0 10050 (ok ''25 projects''),
         TimerFires 0 11200, Responds 0 11250 (status 500)]
        (main (Some ''out'') 10000)) =
   Some (25, [(10000, ListPage 0), (11200, ListPage 1)], [], [], [], [Mkdir ''out/''])"
  by code_simp

section \<open>Retries are not throttled\<close>

lemma responds_transient:
  assumes "responds P k now out w = Some w'" and "transient out" and "snd (inflight w ! k) < 5"
  shows "thr w' = thr w \<and> enqueue_log w' = enqueue_log w \<and> netlog w' = netlog w \<and>
         timeouts w' = timeouts w @
           [(now + 5000 * 2 ^ snd (inflight w ! k),
             RetryTimer (fst (inflight w ! k)) (snd (inflight w ! k) + 1))]"
  using assms
  by (auto simp: responds_def transient_def backoff_def Let_def split: if_splits)

lemma retry_timer_fires:
  assumes "timer_fires k now w = Some w'" and "snd (timeouts w ! k) = RetryTimer c a"
  shows "thr w' = thr w \<and> enqueue_log w' = enqueue_log w \<and> netlog w' = netlog w @ [(now, c)]"
  using assms
  by (auto simp: timer_fires_def send_def Let_def split: if_splits)

lemma retry_run:
  "map_option (\<lambda>w. (netlog w, enqueue_log w))
     (crawl demo_parsers
        [TimerFires 0 10000, Responds 0 10050 (ok ''5 projects''),
         TimerFires 0 11200, Responds 0 11250 (status 503),
         TimerFires 0 12400, TimerFires 1 13600, TimerFires 1 14800, TimerFires 1 16000,
         TimerFires 0 16250]
        (main (Some ''out'') 10000)) =
   Some ([(10000, ListPage 0),
          (11200, WikiPages (project_named ''p1'')),
          (12400, WikiPages (project_named ''p2'')),
          (13600, WikiPages (project_named ''p3'')),
          (14800, WikiPages (project_named ''p4'')),
          (16000, WikiPages (project_named ''p5'')),
          (16250, WikiPages (project_named ''p1''))],
         [ListPage 0, WikiPages (project_named ''p1''), WikiPages (project_named ''p2''), WikiPages (project_named ''p3''),
          WikiPages (project_named ''p4''), WikiPages (project_named ''p5'')])"
  by code_simp

text \<open>
  Claim C10. When the answer to a request is transient and retries are left,
  \<open>retryRequest\<close> sets a backoff timer and leaves the Throttle and the list of enqueued tasks
  as they are; when that timer fires the request is sent again at once, again without
  touching the Throttle. So only the first attempt of a task is spaced by the Throttle. In
  the run below (five projects, the wiki index of the first answered with 503) the retry
  for \<open>p1\<close> leaves at 16250, 250 ms after the throttled request for \<open>p5\<close>, with a minimum
  interval of 1200 ms.
\<close>

theorem retries_bypass_throttle:
  "(responds P k now out w = Some w' \<and> transient out \<and> snd (inflight w ! k) < 5 \<longrightarrow>
      thr w' = thr w \<and> enqueue_log w' = enqueue_log w \<and> netlog w' = netlog w \<and>
      timeouts w' = timeouts w @
        [(now + 5000 * 2 ^ snd (inflight w ! k),
          RetryTimer (fst (inflight w ! k)) (snd (inflight w ! k) + 1))]) \<and>
   (timer_fires j t v = Some v' \<and> snd (timeouts v ! j) = RetryTimer c a \<longrightarrow>
      thr v' = thr v \<and> enqueue_log v' = enqueue_log v \<and> netlog v' = netlog v @ [(t, c)]) \<and>
   map_option (\<lambda>w. (netlog w, enqueue_log w))
     (crawl demo_parsers
        [TimerFires 0 10000, Responds 0 10050 (ok ''5 projects''),
         TimerFires 0 11200, Responds 0 11250 (status 503),
         TimerFires 0 12400, TimerFires 1 13600, TimerFires 1 14800, TimerFires 1 16000,
         TimerFires 0 16250]
        (main (Some ''out'') 10000)) =
   Some ([(10000, ListPage 0),
          (11200, WikiPages (project_named ''p1'')),
          (12400, WikiPages (project_named ''p2'')),
          (13600, WikiPages (project_named ''p3'')),
          (14800, WikiPages (project_named ''p4'')),
          (16000, WikiPages (project_named ''p5'')),
          (16250, WikiPages (project_named ''p1''))],
         [ListPage 0, WikiPages (project_named ''p1''), WikiPages (project_named ''p2''), WikiPages (project_named ''p3''),
          WikiPages (project_named ''p4''), WikiPages (project_named ''p5'')])"
  using responds_transient [of P k now out w w'] retry_timer_fires [of j t v v' c a] retry_run
  by blast

theorem retries_bypass_throttle_witness:
  "responds demo_parsers 0 11250 (status 503) retry_world =
     Some (retry_world\<lparr>time := 11250, inflight := [],
         timeouts := [(12400, ThrottleTimer), (16250, RetryTimer (WikiPages (project_named ''p1'')) 1)]\<rparr>) \<and>
   timer_fires 1 16250 (retry_world\<lparr>time := 11250, inflight := [],
         timeouts := [(12400, ThrottleTimer), (16250, RetryTimer (WikiPages (project_named ''p1'')) 1)]\<rparr>) =
     Some (retry_world\<lparr>time := 16250, inflight := [(WikiPages (project_named ''p1''), 1)],
         timeouts := [(12400, ThrottleTimer)],
         netlog := [(11200, WikiPages (project_named ''p1'')), (16250, WikiPages (project_named ''p1''))]\<rparr>) \<and>
   thr (retry_world\<lparr>time := 16250, inflight := [(WikiPages (project_named ''p1''), 1)],
         timeouts := [(12400, ThrottleTimer)],
         netlog := [(11200, WikiPages (project_named ''p1'')), (16250, WikiPages (project_named ''p1''))]\<rparr>) = thr retry_world"
proof -
  let ?w1 = "retry_world\<lparr>time := 11250, inflight := [],
         timeouts := [(12400, ThrottleTimer), (16250, RetryTimer (WikiPages (project_named ''p1'')) 1)]\<rparr>"
  let ?w2 = "retry_world\<lparr>time := 16250, inflight := [(WikiPages (project_named ''p1''), 1)],
         timeouts := [(12400, ThrottleTimer)],
         netlog := [(11200, WikiPages (project_named ''p1'')), (16250, WikiPages (project_named ''p1''))]\<rparr>"
  have r: "responds demo_parsers 0 11250 (status 503) retry_world = Some ?w1"
    by (simp add: responds_def retry_world_def status_def isRateLimited_def isConnectionRefused_def backoff_def)
  have f: "timer_fires 1 16250 ?w1 = Some ?w2"
    by (simp add: timer_fires_def retry_world_def send_def)
  have t: "transient (status 503)"
    by (simp add: transient_def status_def isRateLimited_def)
  have a: "snd (inflight retry_world ! 0) < 5" by (simp add: retry_world_def)
  have b: "snd (timeouts ?w1 ! 1) = RetryTimer (WikiPages (project_named ''p1'')) 1" by simp
  from retries_bypass_throttle [of demo_parsers 0 11250 "status 503" retry_world ?w1 1 16250 ?w1 ?w2
      "WikiPages (project_named ''p1'')" 1] r f t a b
  have "thr ?w1 = thr retry_world" and "thr ?w2 = thr ?w1" by blast+
  with r f show ?thesis by simp
qed

section \<open>LinkRewriter: walking a content\<close>




section \<open>LinkRewriter: a second pass over rewritten content\<close>






































section \<open>LinkRewriter: images of attachments\<close>



















section \<open>IndexBuilder: the index of a project\<close>










section \<open>The tree the post-passes work on\<close>














end
